theory Spec2Isabelle
  imports Complex_Main "HOL-Library.AList"
begin

section \<open>The threshold strategy of snowbanker\<close>

text \<open>
  A shallow embedding of \<^verbatim>\<open>src/strats/thresh.py\<close> and of the helpers of
  \<^verbatim>\<open>src/sbi/utils.py\<close> that it calls. Python floats are modelled as exact reals:
  no rounding, no NaN and no infinities; a float division by zero raises, as in Python.
  Exceptions are values of the type \<open>exn\<close>; a function that may raise returns
  \<open>exn + 'a\<close>, paired with the world it leaves behind when it has effects.
\<close>

subsection \<open>Python values\<close>

datatype exn = AttributeError | ZeroDivisionError | ValueError | TypeError

text \<open>Float division \<^verbatim>\<open>a / b\<close>: raises on a zero divisor.\<close>

definition py_div :: "real \<Rightarrow> real \<Rightarrow> exn + real" where
  "py_div a b = (if b = 0 then Inl ZeroDivisionError else Inr (a / b))"

text \<open>
  \<^verbatim>\<open>round(x, 2)\<close>: the nearest multiple of one hundredth, a tie going to the even
  hundredth (on exact reals).
\<close>

definition py_round2 :: "real \<Rightarrow> real" where
  "py_round2 x =
     (let y = x * 100; f = \<lfloor>y\<rfloor>; d = y - of_int f
      in (if d < 1 / 2 then of_int f
          else if 1 / 2 < d then of_int (f + 1)
          else if even f then of_int f else of_int (f + 1)) / 100)"

text \<open>\<^verbatim>\<open>utils.IR\<close>: a success flag, a message and some data.\<close>

record 'a IR =
  success :: bool
  message :: string
  data :: "'a option"

definition IR_ok :: "'a option \<Rightarrow> 'a IR" where
  "IR_ok d = \<lparr>success = True, message = [], data = d\<rparr>"

definition IR_fail :: "string \<Rightarrow> 'a IR" where
  "IR_fail msg = \<lparr>success = False, message = msg, data = None\<rparr>"

subsection \<open>Price data points and assets\<close>

text \<open>
  Modelled from the spec: the module \<^verbatim>\<open>sbi.asset\<close> (PriceDataPoint, Asset,
  AssetGroup) is imported by the strategy and is not among the sources. A price data
  point is a price, an instant (here its total seconds) and a quantity; its value is
  price times quantity. An asset is a symbol, a name, a held quantity and a price
  history with minimum, maximum and latest queries, each absent on an empty history.
\<close>

record PriceDataPoint =
  price :: real
  timestamp :: real
  pquantity :: real

definition pdp_value :: "PriceDataPoint \<Rightarrow> real" where
  "pdp_value p = price p * pquantity p"

definition timestamp_total_seconds :: "PriceDataPoint \<Rightarrow> real" where
  "timestamp_total_seconds p = timestamp p"

record Asset =
  name :: string
  symbol :: string
  quantity :: real
  phistory :: "PriceDataPoint list"

definition Asset_init :: "string \<Rightarrow> string \<Rightarrow> real \<Rightarrow> Asset" where
  "Asset_init n s q = \<lparr>name = n, symbol = s, quantity = q, phistory = []\<rparr>"

fun pdp_least :: "PriceDataPoint \<Rightarrow> PriceDataPoint list \<Rightarrow> PriceDataPoint" where
  "pdp_least m [] = m"
| "pdp_least m (p # ps) = pdp_least (if pdp_value p < pdp_value m then p else m) ps"

fun pdp_greatest :: "PriceDataPoint \<Rightarrow> PriceDataPoint list \<Rightarrow> PriceDataPoint" where
  "pdp_greatest m [] = m"
| "pdp_greatest m (p # ps) = pdp_greatest (if pdp_value m < pdp_value p then p else m) ps"

definition phistory_min :: "Asset \<Rightarrow> PriceDataPoint option" where
  "phistory_min a = (case phistory a of [] \<Rightarrow> None | p # ps \<Rightarrow> Some (pdp_least p ps))"

definition phistory_max :: "Asset \<Rightarrow> PriceDataPoint option" where
  "phistory_max a = (case phistory a of [] \<Rightarrow> None | p # ps \<Rightarrow> Some (pdp_greatest p ps))"

definition phistory_latest :: "Asset \<Rightarrow> PriceDataPoint option" where
  "phistory_latest a = (case phistory a of [] \<Rightarrow> None | p # ps \<Rightarrow> Some (last (p # ps)))"

text \<open>
  Modelled from the spec: \<^verbatim>\<open>Asset.phistory_append\<close>, also of the missing module,
  merges the newest price point of the live snapshot; an absent point adds nothing.
\<close>

definition phistory_append :: "Asset \<Rightarrow> PriceDataPoint option \<Rightarrow> Asset" where
  "phistory_append a po =
     (case po of None \<Rightarrow> a | Some p \<Rightarrow> a\<lparr>phistory := phistory a @ [p]\<rparr>)"

subsection \<open>JSON documents\<close>

text \<open>
  A parsed JSON document as Python holds it; a dict is an association list in insertion
  order, and \<^verbatim>\<open>d[k] = v\<close> is \<open>AList.update k v d\<close>. The library calls
  \<^verbatim>\<open>json.loads\<close> and \<^verbatim>\<open>json.dumps\<close>, and the text form of an instant,
  are parameters of the model, collected in a record: \<open>json_loads\<close> is \<open>None\<close>
  where \<^verbatim>\<open>json.loads\<close> raises.
\<close>

datatype json =
  JNull | JBool bool | JInt int | JFloat real | JStr string
  | JList "json list" | JObj "(string \<times> json) list"

datatype pytype = TNone | TBool | TInt | TFloat | TStr | TList | TDict

fun py_type :: "json \<Rightarrow> pytype" where
  "py_type JNull = TNone"
| "py_type (JBool b) = TBool"
| "py_type (JInt i) = TInt"
| "py_type (JFloat r) = TFloat"
| "py_type (JStr s) = TStr"
| "py_type (JList xs) = TList"
| "py_type (JObj kvs) = TDict"

record pylib =
  json_loads :: "string \<Rightarrow> json option"
  json_dumps :: "json \<Rightarrow> string"
  ts_format :: "real \<Rightarrow> string"
  ts_parse :: "string \<Rightarrow> real option"

text \<open>\<^verbatim>\<open>utils.json_check_keys\<close>, on a dict.\<close>

fun json_check_keys :: "(string \<times> json) list \<Rightarrow> (string \<times> pytype) list \<Rightarrow> bool" where
  "json_check_keys jdata [] = True"
| "json_check_keys jdata (e # es) =
     (case map_of jdata (fst e) of
        None \<Rightarrow> False
      | Some v \<Rightarrow> if py_type v \<noteq> snd e then False else json_check_keys jdata es)"

text \<open>
  \<^verbatim>\<open>utils.json_try_loads\<close>: Python's \<^verbatim>\<open>None\<close> both when the parser raises and
  when the document is the JSON value null.
\<close>

definition json_try_loads :: "pylib \<Rightarrow> string \<Rightarrow> json option" where
  "json_try_loads lib s =
     (case json_loads lib s of None \<Rightarrow> None | Some JNull \<Rightarrow> None | Some j \<Rightarrow> Some j)"

text \<open>
  Modelled from the spec: the JSON forms of a price data point and of an asset, whose
  code is in the missing module \<^verbatim>\<open>sbi.asset\<close>. The persisted format gives a point
  the keys price (float), timestamp (string) and quantity (float), and an asset the keys
  symbol, name, quantity (float) and phistory (a sequence of points). Parsing returns
  \<open>None\<close> for a document of another shape.
\<close>

definition pdp_json_make :: "pylib \<Rightarrow> PriceDataPoint \<Rightarrow> json" where
  "pdp_json_make lib p =
     JObj [(''price'', JFloat (price p)),
           (''timestamp'', JStr (ts_format lib (timestamp p))),
           (''quantity'', JFloat (pquantity p))]"

definition pdp_json_parse :: "pylib \<Rightarrow> json \<Rightarrow> PriceDataPoint option" where
  "pdp_json_parse lib j =
     (case j of
        JObj kvs \<Rightarrow>
          (case (map_of kvs ''price'', map_of kvs ''timestamp'', map_of kvs ''quantity'') of
             (Some (JFloat pr), Some (JStr ts), Some (JFloat q)) \<Rightarrow>
               (case ts_parse lib ts of
                  None \<Rightarrow> None
                | Some t \<Rightarrow> Some \<lparr>price = pr, timestamp = t, pquantity = q\<rparr>)
           | _ \<Rightarrow> None)
      | _ \<Rightarrow> None)"

fun pdps_json_parse :: "pylib \<Rightarrow> json list \<Rightarrow> PriceDataPoint list option" where
  "pdps_json_parse lib [] = Some []"
| "pdps_json_parse lib (j # js) =
     (case pdp_json_parse lib j of
        None \<Rightarrow> None
      | Some p \<Rightarrow> (case pdps_json_parse lib js of None \<Rightarrow> None | Some ps \<Rightarrow> Some (p # ps)))"

definition asset_json_make :: "pylib \<Rightarrow> Asset \<Rightarrow> (string \<times> json) list" where
  "asset_json_make lib a =
     [(''symbol'', JStr (symbol a)), (''name'', JStr (name a)),
      (''quantity'', JFloat (quantity a)),
      (''phistory'', JList (map (pdp_json_make lib) (phistory a)))]"

definition asset_json_parse :: "pylib \<Rightarrow> json \<Rightarrow> Asset option" where
  "asset_json_parse lib j =
     (case j of
        JObj kvs \<Rightarrow>
          (case (map_of kvs ''symbol'', map_of kvs ''name'', map_of kvs ''quantity'',
                 map_of kvs ''phistory'') of
             (Some (JStr s), Some (JStr n), Some (JFloat q), Some (JList ps)) \<Rightarrow>
               (case pdps_json_parse lib ps of
                  None \<Rightarrow> None
                | Some h \<Rightarrow> Some \<lparr>name = n, symbol = s, quantity = q, phistory = h\<rparr>)
           | _ \<Rightarrow> None)
      | _ \<Rightarrow> None)"

subsection \<open>Asset data\<close>

datatype AssetMode = UNKNOWN | WATCH | HOLD

fun AssetMode_value :: "AssetMode \<Rightarrow> int" where
  "AssetMode_value UNKNOWN = - 1"
| "AssetMode_value WATCH = 0"
| "AssetMode_value HOLD = 1"

text \<open>The enum's constructor \<^verbatim>\<open>AssetMode(n)\<close> raises ValueError on any other integer.\<close>

definition AssetMode_of :: "int \<Rightarrow> exn + AssetMode" where
  "AssetMode_of n =
     (if n = - 1 then Inr UNKNOWN else if n = 0 then Inr WATCH
      else if n = 1 then Inr HOLD else Inl ValueError)"

record AssetData =
  asset :: Asset
  mode :: AssetMode
  thistory :: "PriceDataPoint list"

definition AssetData_init :: "Asset \<Rightarrow> AssetData" where
  "AssetData_init a = \<lparr>asset = a, mode = UNKNOWN, thistory = []\<rparr>"

definition thistory_append :: "AssetData \<Rightarrow> PriceDataPoint \<Rightarrow> AssetData" where
  "thistory_append ad pdp = ad\<lparr>thistory := thistory ad @ [pdp]\<rparr>"

definition thistory_latest :: "AssetData \<Rightarrow> PriceDataPoint option" where
  "thistory_latest ad =
     (let thlen = length (thistory ad)
      in if thlen = 0 then None else Some (thistory ad ! (thlen - 1)))"

definition json_make :: "pylib \<Rightarrow> AssetData \<Rightarrow> (string \<times> json) list" where
  "json_make lib ad =
     (let jdata = asset_json_make lib (asset ad);
          jdata = AList.update ''mode'' (JInt (AssetMode_value (mode ad))) jdata;
          pdps = map (pdp_json_make lib) (thistory ad)
      in AList.update ''thistory'' (JList pdps) jdata)"

text \<open>
  The loop of \<^verbatim>\<open>AssetData.json_parse\<close> over the transaction entries: a null entry
  is passed over, an entry that does not parse ends the parse with \<open>None\<close>.
\<close>

fun thistory_parse :: "pylib \<Rightarrow> json list \<Rightarrow> AssetData \<Rightarrow> AssetData option" where
  "thistory_parse lib [] ad = Some ad"
| "thistory_parse lib (pdp # rest) ad =
     (case pdp of
        JNull \<Rightarrow> thistory_parse lib rest ad
      | _ \<Rightarrow>
         (case pdp_json_parse lib pdp of
            None \<Rightarrow> None
          | Some pdp_obj \<Rightarrow> thistory_parse lib rest (thistory_append ad pdp_obj)))"

text \<open>
  \<^verbatim>\<open>AssetData.json_parse\<close>. The asset parser has already refused a document that
  is not a dict when the key check is reached.
\<close>

definition json_parse :: "pylib \<Rightarrow> json \<Rightarrow> exn + AssetData option" where
  "json_parse lib jdata =
     (case asset_json_parse lib jdata of
        None \<Rightarrow> Inr None
      | Some a \<Rightarrow>
         (case jdata of
            JObj kvs \<Rightarrow>
              (if \<not> json_check_keys kvs [(''mode'', TInt), (''thistory'', TList)] then Inr None
               else
                 (case (map_of kvs ''mode'', map_of kvs ''thistory'') of
                    (Some (JInt m), Some (JList entries)) \<Rightarrow>
                      (case AssetMode_of m of
                         Inl e \<Rightarrow> Inl e
                       | Inr md \<Rightarrow> Inr (thistory_parse lib entries ((AssetData_init a)\<lparr>mode := md\<rparr>)))
                  | _ \<Rightarrow> Inr None))
          | _ \<Rightarrow> Inr None))"

subsection \<open>File names and the file system\<close>

text \<open>
  \<^verbatim>\<open>str.lower\<close>, \<^verbatim>\<open>str.split\<close> without arguments and \<^verbatim>\<open>str.join\<close>,
  on ASCII strings.
\<close>

definition py_lower_char :: "char \<Rightarrow> char" where
  "py_lower_char c =
     (let n = (of_char c :: nat) in if 65 \<le> n \<and> n \<le> 90 then char_of (n + 32) else c)"

definition py_isspace :: "char \<Rightarrow> bool" where
  "py_isspace c = (let n = (of_char c :: nat) in n = 32 \<or> (9 \<le> n \<and> n \<le> 13) \<or> (28 \<le> n \<and> n \<le> 31))"

fun py_split :: "string \<Rightarrow> string \<Rightarrow> string list" where
  "py_split cur [] = (if cur = [] then [] else [cur])"
| "py_split cur (c # cs) =
     (if py_isspace c then (if cur = [] then py_split [] cs else cur # py_split [] cs)
      else py_split (cur @ [c]) cs)"

fun py_join :: "string \<Rightarrow> string list \<Rightarrow> string" where
  "py_join sep [] = []"
| "py_join sep [x] = x"
| "py_join sep (x # y # ys) = x @ sep @ py_join sep (y # ys)"

definition py_replace_char :: "char \<Rightarrow> char \<Rightarrow> string \<Rightarrow> string" where
  "py_replace_char old new s = map (\<lambda>c. if c = old then new else c) s"

text \<open>\<^verbatim>\<open>utils.str_to_fname\<close>; the character 0x5C is the backslash.\<close>

definition str_to_fname :: "string \<Rightarrow> string \<Rightarrow> string" where
  "str_to_fname string extension =
     (let fname = py_join ''_'' (py_split [] string);
          fname = py_replace_char (CHR ''/'') (CHR ''-'') fname;
          fname = py_replace_char (CHR 0x5C) (CHR ''-'') fname;
          extension = (if extension \<noteq> [] then ''.'' @ extension else [])
      in fname @ extension)"

definition symbol_to_asset_fname :: "string \<Rightarrow> string" where
  "symbol_to_asset_fname nm = str_to_fname (''asset_'' @ map py_lower_char nm) ''json''"

text \<open>\<^verbatim>\<open>os.path.join\<close> of two components, on POSIX.\<close>

definition path_join :: "string \<Rightarrow> string \<Rightarrow> string" where
  "path_join a b =
     (if b \<noteq> [] \<and> hd b = CHR ''/'' then b
      else if a = [] \<or> last a = CHR ''/'' then a @ b
      else a @ ''/'' @ b)"

text \<open>
  Modelled from the spec: the brokerage client \<^verbatim>\<open>sbi.api\<close> is an external
  collaborator. An order is a symbol, an action and a dollar amount; a fill is a realised
  value, a realised quantity and an identifier. The answers of the client are parameters
  of the model.
\<close>

datatype TradeOrderAction = BUY | SELL

record TradeOrder =
  order_symbol :: string
  action :: TradeOrderAction
  amount :: real

record Fill =
  fill_value :: real
  fill_quantity :: real
  fill_id :: string

record api =
  get_market_status :: "bool IR"
  get_assets :: "Asset list IR"
  send_order :: "TradeOrder \<Rightarrow> Fill IR"

text \<open>The messages that the strategy logs, with the values they print.\<close>

datatype logmsg =
  LogMarketsClosed | LogNoHistory string | LogShares string real real real
  | LogProgbar real real real | LogBuyMin | LogBuy real | LogNotEnough | LogSell real
  | LogHold | LogOrderFailed string | LogOrderSucceeded real string | LogValueSum real

text \<open>
  The world outside the process: the content of each file, the paths on which opening
  for reading or for writing raises (with the text of the exception), the log, and the
  orders submitted to the brokerage so far.
\<close>

record world =
  files :: "string \<Rightarrow> string option"
  rd_err :: "string \<Rightarrow> string option"
  wr_err :: "string \<Rightarrow> string option"
  wlog :: "logmsg list"
  sent :: "TradeOrder list"

definition log_add :: "world \<Rightarrow> logmsg \<Rightarrow> world" where
  "log_add w m = w\<lparr>wlog := wlog w @ [m]\<rparr>"

text \<open>\<^verbatim>\<open>utils.file_read_all\<close>: any exception becomes a failed result.\<close>

definition file_read_all :: "world \<Rightarrow> string \<Rightarrow> string IR" where
  "file_read_all w fpath =
     (case rd_err w fpath of
        Some e \<Rightarrow> IR_fail (''failed to read from file ('' @ fpath @ ''): '' @ e)
      | None \<Rightarrow>
         (case files w fpath of
            None \<Rightarrow> IR_fail (''failed to read from file ('' @ fpath @ ''): ''
                        @ ''[Errno 2] No such file or directory: '' @ [CHR 0x27] @ fpath @ [CHR 0x27])
          | Some content \<Rightarrow> IR_ok (Some content)))"

text \<open>\<^verbatim>\<open>utils.file_write_all\<close>: a failed write leaves the file as it was.\<close>

definition file_write_all :: "world \<Rightarrow> string \<Rightarrow> string \<Rightarrow> unit IR \<times> world" where
  "file_write_all w fpath string =
     (case wr_err w fpath of
        Some e \<Rightarrow> (IR_fail (''failed to write to file ('' @ fpath @ ''): '' @ e), w)
      | None \<Rightarrow> (IR_ok None, w\<lparr>files := (files w)(fpath \<mapsto> string)\<rparr>))"

subsection \<open>Saving and loading asset data\<close>

definition save :: "pylib \<Rightarrow> AssetData \<Rightarrow> string \<Rightarrow> world \<Rightarrow> unit IR \<times> world" where
  "save lib ad dpath w =
     (let jdata = json_make lib ad;
          fname = symbol_to_asset_fname (symbol (asset ad));
          fpath = path_join dpath fname;
          jstr = json_dumps lib (JObj jdata)
      in file_write_all w fpath jstr)"

definition load :: "pylib \<Rightarrow> string \<Rightarrow> string \<Rightarrow> world \<Rightarrow> exn + AssetData IR" where
  "load lib smb dpath w =
     (let fname = symbol_to_asset_fname smb;
          fpath = path_join dpath fname;
          res = file_read_all w fpath
      in if \<not> success res then Inr (IR_fail (message res))
         else
           (case (case data res of None \<Rightarrow> None | Some s \<Rightarrow> json_try_loads lib s) of
              None \<Rightarrow> Inr (IR_fail (''failed to parse JSON data from file: '' @ fpath))
            | Some jdata \<Rightarrow>
               (case json_parse lib jdata of
                  Inl e \<Rightarrow> Inl e
                | Inr None \<Rightarrow> Inr (IR_fail (''failed to parse AssetData from file: '' @ fpath))
                | Inr (Some ad) \<Rightarrow> Inr (IR_ok (Some ad)))))"

subsection \<open>The position ratio\<close>

text \<open>
  Lines 221 to 225 of \<^verbatim>\<open>TStrat.tick\<close>: \<^verbatim>\<open>percent_to_max\<close> starts at 0.0 and
  is computed only when there is history and the extreme values differ.
\<close>

definition percent_to_max ::
  "bool \<Rightarrow> PriceDataPoint \<Rightarrow> PriceDataPoint \<Rightarrow> PriceDataPoint \<Rightarrow> exn + real" where
  "percent_to_max no_history amin amax acurr =
     (if \<not> no_history then
        (if pdp_value amax \<noteq> pdp_value amin
         then py_div (pdp_value acurr - pdp_value amin) (pdp_value amax - pdp_value amin)
         else Inr 0)
      else Inr 0)"

subsection \<open>The strategy\<close>

text \<open>The strategy globals, set by \<^verbatim>\<open>config_load\<close>.\<close>

record config =
  base_buy :: real
  thresh_buy :: real
  thresh_sell :: real
  order_cooldown :: int
  symbols :: "string list"

text \<open>
  \<^verbatim>\<open>TStrat.place_order\<close>. The clock reading \<open>now\<close> is a parameter. The result
  carries the asset data as the call leaves it.
\<close>

definition place_order ::
  "api \<Rightarrow> pylib \<Rightarrow> real \<Rightarrow> string \<Rightarrow> AssetData \<Rightarrow> TradeOrder \<Rightarrow> world
     \<Rightarrow> (exn + AssetData \<times> Fill option) \<times> world" where
  "place_order ap lib now dpath ad order w =
     (let w0 = w\<lparr>sent := sent w @ [order]\<rparr>;
          res = send_order ap order
      in if \<not> success res then (Inr (ad, None), log_add w0 (LogOrderFailed (message res)))
         else
           (case data res of
              None \<Rightarrow> (Inl AttributeError, w0)
            | Some order_result \<Rightarrow>
               (let w1 = log_add w0
                           (LogOrderSucceeded (fill_value order_result) (fill_id order_result))
                in case py_div (fill_value order_result) (fill_quantity order_result) of
                     Inl e \<Rightarrow> (Inl e, w1)
                   | Inr current_price \<Rightarrow>
                      (let pdp = \<lparr>price = current_price, timestamp = now,
                                  pquantity = fill_quantity order_result\<rparr>;
                           ad' = thistory_append ad pdp;
                           w2 = snd (save lib ad' dpath w1)
                       in (Inr (ad', Some order_result), w2)))))"

text \<open>
  Modelled from the spec: the account snapshot, an \<^verbatim>\<open>AssetGroup\<close> of the missing
  module \<^verbatim>\<open>sbi.asset\<close>, is a collection with search by symbol and removal. It is
  the list of its assets, and the search returns the first asset with the symbol.
\<close>

definition search :: "Asset list \<Rightarrow> string \<Rightarrow> Asset option" where
  "search assets smb = find (\<lambda>a. symbol a = smb) assets"

text \<open>
  \<^verbatim>\<open>TStrat.retrieve_assets\<close>: the body of its loop over the tracked symbols, the
  loop, and the function. Removing the untracked assets from the snapshot keeps those
  whose symbol is tracked. The result of the save is ignored, as in the source.
\<close>

definition retrieve_one ::
  "pylib \<Rightarrow> string \<Rightarrow> Asset list \<Rightarrow> string \<Rightarrow> world \<Rightarrow> (exn + AssetData) \<times> world" where
  "retrieve_one lib dpath assets smb w =
     (case load lib smb dpath w of
        Inl e \<Rightarrow> (Inl e, w)
      | Inr res \<Rightarrow>
         (let ad = (if success res then data res else None);
              found = search assets smb;
              a = (case found of None \<Rightarrow> Asset_init smb smb 0 | Some a \<Rightarrow> a);
              ad = (case found of
                      None \<Rightarrow> ad
                    | Some a \<Rightarrow>
                       (case ad of
                          None \<Rightarrow> None
                        | Some d \<Rightarrow>
                           Some (d\<lparr>asset := (phistory_append (asset d) (phistory_latest a))
                                             \<lparr>quantity := quantity a\<rparr>\<rparr>)));
              ad = (case ad of None \<Rightarrow> AssetData_init a | Some d \<Rightarrow> d)
          in (Inr ad, snd (save lib ad dpath w))))"

fun retrieve_loop ::
  "pylib \<Rightarrow> string \<Rightarrow> Asset list \<Rightarrow> string list \<Rightarrow> AssetData list \<Rightarrow> world
     \<Rightarrow> (exn + AssetData list) \<times> world" where
  "retrieve_loop lib dpath assets [] adata w = (Inr adata, w)"
| "retrieve_loop lib dpath assets (smb # rest) adata w =
     (case retrieve_one lib dpath assets smb w of
        (Inl e, w') \<Rightarrow> (Inl e, w')
      | (Inr ad, w') \<Rightarrow> retrieve_loop lib dpath assets rest (adata @ [ad]) w')"

definition retrieve_assets ::
  "config \<Rightarrow> api \<Rightarrow> pylib \<Rightarrow> string \<Rightarrow> world \<Rightarrow> (exn + AssetData list IR) \<times> world" where
  "retrieve_assets cfg ap lib dpath w =
     (let res = get_assets ap
      in if \<not> success res then (Inr (IR_fail (message res)), w)
         else
           (case data res of
              None \<Rightarrow> (Inl TypeError, w)
            | Some assets \<Rightarrow>
               (let assets = filter (\<lambda>a. symbol a \<in> set (symbols cfg)) assets
                in case retrieve_loop lib dpath assets (symbols cfg) [] w of
                     (Inl e, w') \<Rightarrow> (Inl e, w')
                   | (Inr adata, w') \<Rightarrow> (Inr (IR_ok (Some adata)), w'))))"

text \<open>The cooldown test of \<^verbatim>\<open>TStrat.tick\<close>, lines 203 to 215.\<close>

definition cooldown_skip :: "config \<Rightarrow> real \<Rightarrow> AssetData \<Rightarrow> bool" where
  "cooldown_skip cfg now_secs ad =
     (case thistory_latest ad of
        None \<Rightarrow> False
      | Some ltran \<Rightarrow>
         (let ltran_secs = timestamp_total_seconds ltran;
              diff_secs = now_secs - ltran_secs
          in diff_secs < real_of_int (order_cooldown cfg)))"

text \<open>The decision of \<^verbatim>\<open>TStrat.tick\<close>, lines 240 to 294, for one asset.\<close>

definition strategic ::
  "config \<Rightarrow> api \<Rightarrow> pylib \<Rightarrow> real \<Rightarrow> string \<Rightarrow> AssetData \<Rightarrow> bool \<Rightarrow> real
     \<Rightarrow> PriceDataPoint \<Rightarrow> world \<Rightarrow> (exn + unit) \<times> world" where
  "strategic cfg ap lib now dpath ad no_history pct acurr w =
     (let own_shares = quantity (asset ad) > 0
      in if \<not> own_shares then
           (if no_history \<or> quantity (asset ad) = 0 then
              (let w1 = log_add w LogBuyMin;
                   order = \<lparr>order_symbol = symbol (asset ad), action = BUY, amount = 1\<rparr>
               in case place_order ap lib now dpath ad order w1 of
                    (Inl e, w2) \<Rightarrow> (Inl e, w2)
                  | (Inr order_result, w2) \<Rightarrow> (Inr (), w2))
            else (Inr (), w))
         else
           (let thresh_buy_percent = 1 / 2 - thresh_buy cfg
            in if pct \<le> thresh_buy_percent then
                 (case py_div pct thresh_buy_percent of
                    Inl e \<Rightarrow> (Inl e, w)
                  | Inr q \<Rightarrow>
                     (let buy_amount = (1 - q) * base_buy cfg;
                          buy_amount = max 1 buy_amount;
                          w1 = log_add w (LogBuy buy_amount);
                          order = \<lparr>order_symbol = symbol (asset ad), action = BUY,
                                    amount = buy_amount\<rparr>
                      in case place_order ap lib now dpath ad order w1 of
                           (Inl e, w2) \<Rightarrow> (Inl e, w2)
                         | (Inr order_result, w2) \<Rightarrow> (Inr (), w2)))
               else
                 (let thresh_sell_percent = 1 / 2 + thresh_sell cfg
                  in if pct \<ge> thresh_sell_percent then
                       (case py_div (pct - thresh_sell_percent) (1 - thresh_sell_percent) of
                          Inl e \<Rightarrow> (Inl e, w)
                        | Inr multiplier \<Rightarrow>
                           (let sell_amount = multiplier * base_buy cfg;
                                sell_amount = min (pdp_value acurr * quantity (asset ad)) sell_amount;
                                sell_amount = max 0 (py_round2 (sell_amount - 1))
                            in if sell_amount = 0 then (Inr (), log_add w LogNotEnough)
                               else
                                 (let w1 = log_add w (LogSell sell_amount);
                                      order = \<lparr>order_symbol = symbol (asset ad), action = SELL,
                                                amount = sell_amount\<rparr>
                                  in case place_order ap lib now dpath ad order w1 of
                                       (Inl e, w2) \<Rightarrow> (Inl e, w2)
                                     | (Inr order_result, w2) \<Rightarrow> (Inr (), w2))))
                     else (Inr (), log_add w LogHold))))"

text \<open>
  Lines 217 to 238: the position ratio and the two log lines, which are computed only
  with history; then the decision.
\<close>

definition decide ::
  "config \<Rightarrow> api \<Rightarrow> pylib \<Rightarrow> real \<Rightarrow> string \<Rightarrow> AssetData \<Rightarrow> PriceDataPoint option
     \<Rightarrow> PriceDataPoint option \<Rightarrow> PriceDataPoint \<Rightarrow> world \<Rightarrow> (exn + unit) \<times> world" where
  "decide cfg ap lib now dpath ad amin amax acurr w =
     (case (amin, amax) of
        (Some mn, Some mx) \<Rightarrow>
          (case percent_to_max False mn mx acurr of
             Inl e \<Rightarrow> (Inl e, w)
           | Inr pct \<Rightarrow>
              (let w1 = log_add w (LogShares (symbol (asset ad)) (quantity (asset ad))
                                     (price acurr) (pdp_value acurr * quantity (asset ad)));
                   w2 = log_add w1 (LogProgbar (pdp_value mn) pct (pdp_value mx))
               in strategic cfg ap lib now dpath ad False pct acurr w2))
      | _ \<Rightarrow> strategic cfg ap lib now dpath ad True 0 acurr w)"

text \<open>
  The body of the loop of \<^verbatim>\<open>TStrat.tick\<close> for one asset. Line 199 calls
  \<^verbatim>\<open>acurr.value()\<close> before anything else looks at \<^verbatim>\<open>no_history\<close>: on
  \<^verbatim>\<open>None\<close> that raises AttributeError.
\<close>

definition tick_asset ::
  "config \<Rightarrow> api \<Rightarrow> pylib \<Rightarrow> real \<Rightarrow> string \<Rightarrow> AssetData \<Rightarrow> real \<Rightarrow> world
     \<Rightarrow> (exn + real) \<times> world" where
  "tick_asset cfg ap lib now dpath ad vsum w =
     (let amin = phistory_min (asset ad);
          amax = phistory_max (asset ad);
          acurr = phistory_latest (asset ad);
          no_history = (amin = None \<or> amax = None \<or> acurr = None);
          w1 = (if no_history then log_add w (LogNoHistory (symbol (asset ad))) else w)
      in case acurr of
           None \<Rightarrow> (Inl AttributeError, w1)
         | Some c \<Rightarrow>
            (let vsum' = vsum + pdp_value c * quantity (asset ad)
             in if cooldown_skip cfg now ad then (Inr vsum', w1)
                else
                  (case decide cfg ap lib now dpath ad amin amax c w1 of
                     (Inl e, w2) \<Rightarrow> (Inl e, w2)
                   | (Inr u, w2) \<Rightarrow> (Inr vsum', w2))))"

fun tick_loop ::
  "config \<Rightarrow> api \<Rightarrow> pylib \<Rightarrow> real \<Rightarrow> string \<Rightarrow> AssetData list \<Rightarrow> real \<Rightarrow> world
     \<Rightarrow> (exn + real) \<times> world" where
  "tick_loop cfg ap lib now dpath [] vsum w = (Inr vsum, w)"
| "tick_loop cfg ap lib now dpath (ad # rest) vsum w =
     (case tick_asset cfg ap lib now dpath ad vsum w of
        (Inl e, w') \<Rightarrow> (Inl e, w')
      | (Inr vsum', w') \<Rightarrow> tick_loop cfg ap lib now dpath rest vsum' w')"

text \<open>\<^verbatim>\<open>TStrat.tick\<close>.\<close>

definition tick ::
  "config \<Rightarrow> api \<Rightarrow> pylib \<Rightarrow> real \<Rightarrow> string \<Rightarrow> world \<Rightarrow> (exn + unit IR) \<times> world" where
  "tick cfg ap lib now dpath w =
     (let res = get_market_status ap
      in if \<not> success res then (Inr (IR_fail (message res)), w)
         else
           (let w1 = (if data res \<noteq> Some True then log_add w LogMarketsClosed else w)
            in case retrieve_assets cfg ap lib dpath w1 of
                 (Inl e, w2) \<Rightarrow> (Inl e, w2)
               | (Inr res, w2) \<Rightarrow>
                  (if \<not> success res then (Inr (IR_fail (message res)), w2)
                   else
                     (case data res of
                        None \<Rightarrow> (Inl TypeError, w2)
                      | Some adata \<Rightarrow>
                         (case tick_loop cfg ap lib now dpath adata 0 w2 of
                            (Inl e, w3) \<Rightarrow> (Inl e, w3)
                          | (Inr vsum, w3) \<Rightarrow> (Inr (IR_ok None), log_add w3 (LogValueSum vsum)))))))"

subsection \<open>Concrete inputs\<close>

text \<open>
  A library, a brokerage, a configuration (the defaults of the module) and an empty world,
  on which the functions are evaluated.
\<close>

fun demo_dumps :: "json \<Rightarrow> string" where
  "demo_dumps (JObj kvs) = ''{'' @ py_join '','' (map fst kvs) @ ''}''"
| "demo_dumps j = ''?''"

definition demo_lib :: pylib where
  "demo_lib =
     \<lparr>json_loads = (\<lambda>s. if s = ''{}'' then Some (JObj []) else None),
      json_dumps = demo_dumps,
      ts_format = (\<lambda>t. if t = 0 then ''0'' else ''1''),
      ts_parse = (\<lambda>s. if s = ''0'' then Some 0 else if s = ''1'' then Some 1 else None)\<rparr>"

definition demo_api :: api where
  "demo_api =
     \<lparr>get_market_status = IR_ok (Some True), get_assets = IR_ok (Some []),
      send_order = (\<lambda>order. IR_fail ''rejected'')\<rparr>"

definition fill_api :: api where
  "fill_api =
     \<lparr>get_market_status = IR_ok (Some True), get_assets = IR_ok (Some []),
      send_order = (\<lambda>order. IR_ok (Some \<lparr>fill_value = amount order, fill_quantity = 1 / 100,
                                           fill_id = ''id''\<rparr>))\<rparr>"

definition demo_cfg :: config where
  "demo_cfg =
     \<lparr>base_buy = 20, thresh_buy = 1 / 100, thresh_sell = 1 / 100,
      order_cooldown = 43200, symbols = [''AAPL'']\<rparr>"

definition demo_world :: world where
  "demo_world =
     \<lparr>files = (\<lambda>p. None), rd_err = (\<lambda>p. None), wr_err = (\<lambda>p. None), wlog = [], sent = []\<rparr>"

definition observation :: "real \<Rightarrow> real \<Rightarrow> PriceDataPoint" where
  "observation pr t = \<lparr>price = pr, timestamp = t, pquantity = 1\<rparr>"

definition demo_ad :: "real \<Rightarrow> PriceDataPoint list \<Rightarrow> PriceDataPoint list \<Rightarrow> AssetData" where
  "demo_ad q h th =
     \<lparr>asset = \<lparr>name = ''AAPL'', symbol = ''AAPL'', quantity = q, phistory = h\<rparr>,
      mode = UNKNOWN, thistory = th\<rparr>"

text \<open>
  A library that knows one document, a world holding the asset file of AAPL, and the same
  world with that path closed to reading and writing.
\<close>

definition doc_lib :: "json \<Rightarrow> pylib" where
  "doc_lib j = demo_lib\<lparr>json_loads := (\<lambda>s. if s = ''doc'' then Some j else None)\<rparr>"

definition file_world :: "string \<Rightarrow> world" where
  "file_world content =
     demo_world\<lparr>files := (\<lambda>p. if p = ''work/asset_aapl.json'' then Some content else None)\<rparr>"

definition blocked_world :: "string \<Rightarrow> world" where
  "blocked_world content =
     (file_world content)\<lparr>rd_err := (\<lambda>p. Some ''[Errno 13] Permission denied''),
                            wr_err := (\<lambda>p. Some ''[Errno 13] Permission denied'')\<rparr>"

section \<open>Properties\<close>

subsection \<open>The position ratio\<close>

text \<open>
  Claim C6. With price history, \<^verbatim>\<open>percent_to_max\<close> never raises: it is
  (current - min) / (max - min) when max and min differ and 0 when they are equal, so no
  division by zero is performed; and when min < max the ratio lies in [0, 1] exactly when
  current lies in [min, max].
\<close>

theorem percent_to_max_range:
  "(pdp_value amax \<noteq> pdp_value amin \<longrightarrow>
      percent_to_max False amin amax acurr =
        Inr ((pdp_value acurr - pdp_value amin) / (pdp_value amax - pdp_value amin))) \<and>
   (pdp_value amax = pdp_value amin \<longrightarrow> percent_to_max False amin amax acurr = Inr 0) \<and>
   (pdp_value amin < pdp_value amax \<longrightarrow>
      (\<exists>r. percent_to_max False amin amax acurr = Inr r \<and>
           ((0 \<le> r \<and> r \<le> 1) \<longleftrightarrow>
            (pdp_value amin \<le> pdp_value acurr \<and> pdp_value acurr \<le> pdp_value amax))))"
  by (auto simp: percent_to_max_def py_div_def zero_le_divide_iff divide_le_eq)

theorem percent_to_max_range_witness:
  "percent_to_max False \<lparr>price = 90, timestamp = 0, pquantity = 1\<rparr>
      \<lparr>price = 110, timestamp = 1, pquantity = 1\<rparr> \<lparr>price = 91, timestamp = 2, pquantity = 1\<rparr>
     = Inr (1 / 20) \<and>
   percent_to_max False \<lparr>price = 90, timestamp = 0, pquantity = 1\<rparr>
      \<lparr>price = 90, timestamp = 1, pquantity = 1\<rparr> \<lparr>price = 90, timestamp = 2, pquantity = 1\<rparr>
     = Inr 0"
  using percent_to_max_range [of "\<lparr>price = 110, timestamp = 1, pquantity = 1\<rparr>"
      "\<lparr>price = 90, timestamp = 0, pquantity = 1\<rparr>" "\<lparr>price = 91, timestamp = 2, pquantity = 1\<rparr>"]
    percent_to_max_range [of "\<lparr>price = 90, timestamp = 1, pquantity = 1\<rparr>"
      "\<lparr>price = 90, timestamp = 0, pquantity = 1\<rparr>" "\<lparr>price = 90, timestamp = 2, pquantity = 1\<rparr>"]
  by (simp add: pdp_value_def)

subsection \<open>The JSON round trip\<close>

lemma pdp_roundtrip:
  "ts_parse lib (ts_format lib (timestamp p)) = Some (timestamp p) \<Longrightarrow>
   pdp_json_parse lib (pdp_json_make lib p) = Some p"
  by (simp add: pdp_json_parse_def pdp_json_make_def)

lemma pdps_roundtrip:
  "\<forall>p\<in>set ps. ts_parse lib (ts_format lib (timestamp p)) = Some (timestamp p) \<Longrightarrow>
   pdps_json_parse lib (map (pdp_json_make lib) ps) = Some ps"
  by (induction ps) (simp_all add: pdp_roundtrip)

lemma thistory_parse_roundtrip:
  "\<forall>p\<in>set ps. ts_parse lib (ts_format lib (timestamp p)) = Some (timestamp p) \<Longrightarrow>
   thistory_parse lib (map (pdp_json_make lib) ps) ad = Some (ad\<lparr>thistory := thistory ad @ ps\<rparr>)"
proof (induction ps arbitrary: ad)
  case Nil
  then show ?case by simp
next
  case (Cons p ps)
  have shape: "pdp_json_make lib p =
      JObj [(''price'', JFloat (price p)), (''timestamp'', JStr (ts_format lib (timestamp p))),
            (''quantity'', JFloat (pquantity p))]"
    by (simp add: pdp_json_make_def)
  moreover have "pdp_json_parse lib (pdp_json_make lib p) = Some p"
    using Cons.prems by (simp add: pdp_roundtrip)
  ultimately show ?case
    using Cons by (simp add: thistory_append_def)
qed

lemma AssetMode_roundtrip: "AssetMode_of (AssetMode_value m) = Inr m"
  by (cases m) (simp_all add: AssetMode_of_def)



subsection \<open>Orders and files over a tick\<close>

lemma sent_log_add [simp]: "sent (log_add w m) = sent w"
  by (simp add: log_add_def)

lemma files_log_add [simp]: "files (log_add w m) = files w"
  by (simp add: log_add_def)

lemma sent_file_write_all [simp]: "sent (snd (file_write_all w fpath s)) = sent w"
  by (simp add: file_write_all_def split: option.splits)

lemma sent_save [simp]: "sent (snd (save lib ad dpath w)) = sent w"
  by (simp add: save_def Let_def)

lemma snd_case_result [simp]:
  "snd (case x of (Inl e, w2) \<Rightarrow> (Inl e, w2) | (Inr r, w2) \<Rightarrow> (Inr (g r), w2)) = snd x"
  by (cases x; cases "fst x"; simp)

lemma sent_place_order:
  "sent (snd (place_order ap lib now dpath ad order w)) = sent w @ [order]"
  by (simp add: place_order_def Let_def py_div_def split: option.splits sum.splits)

lemma percent_to_max_total: "\<exists>r. percent_to_max nh mn mx c = Inr r"
  by (simp add: percent_to_max_def py_div_def)

lemma sent_strategic_zero:
  assumes "quantity (asset ad) = 0"
  shows "sent (snd (strategic cfg ap lib now dpath ad nh pct c w)) =
           sent w @ [\<lparr>order_symbol = symbol (asset ad), action = BUY, amount = 1\<rparr>]"
  using assms
  by (simp add: strategic_def Let_def sent_place_order)

lemma sent_decide_zero:
  assumes "quantity (asset ad) = 0"
  shows "sent (snd (decide cfg ap lib now dpath ad amin amax c w)) =
           sent w @ [\<lparr>order_symbol = symbol (asset ad), action = BUY, amount = 1\<rparr>]"
proof (cases "\<exists>mn mx. amin = Some mn \<and> amax = Some mx")
  case True
  then obtain mn mx where m: "amin = Some mn" "amax = Some mx" by blast
  obtain r where r: "percent_to_max False mn mx c = Inr r"
    using percent_to_max_total by blast
  show ?thesis using m r assms by (simp add: decide_def Let_def sent_strategic_zero)
next
  case False
  then show ?thesis using assms
    by (auto simp: decide_def sent_strategic_zero split: option.splits)
qed

lemma phistory_latest_Some: "phistory (asset ad) \<noteq> [] \<Longrightarrow> \<exists>c. phistory_latest (asset ad) = Some c"
  by (simp add: phistory_latest_def split: list.splits)

lemma thistory_latest_last:
  "thistory ad \<noteq> [] \<Longrightarrow> thistory_latest ad = Some (last (thistory ad))"
  by (simp add: thistory_latest_def last_conv_nth)

lemma cooldown_skip_last:
  "thistory ad \<noteq> [] \<Longrightarrow>
   cooldown_skip cfg now ad = (now - timestamp (last (thistory ad)) < real_of_int (order_cooldown cfg))"
  by (simp add: cooldown_skip_def thistory_latest_last timestamp_total_seconds_def)

lemma tick_asset_cooldown:
  assumes "cooldown_skip cfg now ad"
  shows "sent (snd (tick_asset cfg ap lib now dpath ad vsum w)) = sent w \<and>
         files (snd (tick_asset cfg ap lib now dpath ad vsum w)) = files w"
  using assms by (simp add: tick_asset_def Let_def split: option.splits)

lemma phistory_Some:
  assumes "phistory_latest (asset ad) = Some c"
  shows "\<exists>mn mx. phistory_min (asset ad) = Some mn \<and> phistory_max (asset ad) = Some mx"
  using assms by (simp add: phistory_latest_def phistory_min_def phistory_max_def split: list.splits)

lemma tick_asset_eligible:
  assumes "\<not> cooldown_skip cfg now ad" and "phistory_latest (asset ad) = Some c"
  shows "tick_asset cfg ap lib now dpath ad vsum w =
           (case decide cfg ap lib now dpath ad (phistory_min (asset ad))
                   (phistory_max (asset ad)) c w of
              (Inl e, w2) \<Rightarrow> (Inl e, w2)
            | (Inr u, w2) \<Rightarrow> (Inr (vsum + pdp_value c * quantity (asset ad)), w2))"
proof -
  obtain mn mx where "phistory_min (asset ad) = Some mn" "phistory_max (asset ad) = Some mx"
    using phistory_Some [OF assms(2)] by blast
  then show ?thesis using assms by (simp add: tick_asset_def Let_def)
qed

lemma py_round2_le: "py_round2 x \<le> x + 1 / 200"
proof -
  define f where "f = \<lfloor>x * 100\<rfloor>"
  define r :: real where "r = (if x * 100 - of_int f < 1 / 2 then of_int f
         else if 1 / 2 < x * 100 - of_int f then of_int (f + 1)
         else if even f then of_int f else of_int (f + 1))"
  have lo: "of_int f \<le> x * 100" by (simp add: f_def)
  have r: "r \<le> x * 100 + 1 / 2"
    unfolding r_def using lo by auto
  have "py_round2 x = r / 100"
    unfolding py_round2_def Let_def r_def f_def by (rule refl)
  then show ?thesis using r by simp
qed

lemma tick_asset_strategic:
  assumes "phistory_min (asset ad) = Some mn" "phistory_max (asset ad) = Some mx"
    "phistory_latest (asset ad) = Some c" "\<not> cooldown_skip cfg now ad"
    "percent_to_max False mn mx c = Inr pct"
  shows "\<exists>w'. sent w' = sent w \<and> files w' = files w \<and>
           snd (tick_asset cfg ap lib now dpath ad vsum w) =
           snd (strategic cfg ap lib now dpath ad False pct c w')"
  using assms
  by (simp add: tick_asset_def decide_def Let_def)
     (metis sent_log_add files_log_add)

lemma strategic_buy:
  assumes "quantity (asset ad) > 0" "pct \<le> 1 / 2 - thresh_buy cfg" "1 / 2 - thresh_buy cfg \<noteq> 0"
  shows "sent (snd (strategic cfg ap lib now dpath ad nh pct c w)) =
           sent w @ [\<lparr>order_symbol = symbol (asset ad), action = BUY,
                      amount = max 1 ((1 - pct / (1 / 2 - thresh_buy cfg)) * base_buy cfg)\<rparr>]"
  using assms by (simp add: strategic_def Let_def py_div_def sent_place_order)

lemma strategic_sell:
  assumes "quantity (asset ad) > 0" "\<not> pct \<le> 1 / 2 - thresh_buy cfg"
    "pct \<ge> 1 / 2 + thresh_sell cfg" "1 / 2 + thresh_sell cfg \<noteq> 1"
    and "amt = max 0 (py_round2 (min (pdp_value c * quantity (asset ad))
            ((pct - (1 / 2 + thresh_sell cfg)) / (1 - (1 / 2 + thresh_sell cfg)) * base_buy cfg) - 1))"
  shows "sent (snd (strategic cfg ap lib now dpath ad nh pct c w)) =
           (if amt = 0 then sent w
            else sent w @ [\<lparr>order_symbol = symbol (asset ad), action = SELL, amount = amt\<rparr>])"
  using assms by (simp add: strategic_def Let_def py_div_def sent_place_order)

text \<open>Evaluations on the concrete inputs.\<close>

lemma fname_aapl: "symbol_to_asset_fname ''AAPL'' = ''asset_aapl.json''"
  by code_simp

lemma path_aapl: "path_join ''work'' (symbol_to_asset_fname ''AAPL'') = ''work/asset_aapl.json''"
  by code_simp

lemma scenario_history:
  "phistory_min (asset (demo_ad q [observation 90 0, observation 110 1, observation 91 2] th)) = Some (observation 90 0)"
  "phistory_max (asset (demo_ad q [observation 90 0, observation 110 1, observation 91 2] th)) = Some (observation 110 1)"
  "phistory_latest (asset (demo_ad q [observation 90 0, observation 110 1, observation 91 2] th)) = Some (observation 91 2)"
  by (simp_all add: demo_ad_def phistory_min_def phistory_max_def phistory_latest_def
      observation_def pdp_value_def)

lemma sell_history:
  "100 \<le> x \<Longrightarrow> x \<le> 200 \<Longrightarrow> phistory_min (asset (demo_ad q [observation 100 0, observation 200 1, observation x 2] th)) = Some (observation 100 0)"
  "100 \<le> x \<Longrightarrow> x \<le> 200 \<Longrightarrow> phistory_max (asset (demo_ad q [observation 100 0, observation 200 1, observation x 2] th)) = Some (observation 200 1)"
  "phistory_latest (asset (demo_ad q [observation 100 0, observation 200 1, observation x 2] th)) = Some (observation x 2)"
  by (simp_all add: demo_ad_def phistory_min_def phistory_max_def phistory_latest_def
      observation_def pdp_value_def)

lemma round_ex1: "py_round2 (1 / 500) = 0"
  by (simp add: py_round2_def Let_def)

lemma round_ex2: "py_round2 (531 / 49) = 271 / 25"
  by (simp add: py_round2_def Let_def)

text \<open>
  Claim C2, as amended. For a tracked asset that holds quantity 0, has price history and
  is not within its order cooldown, the tick submits one order: a BUY of exactly $1.00
  for the asset's symbol, whatever the thresholds and the base amount are.
\<close>

theorem bootstrap_buy:
  assumes "quantity (asset ad) = 0" and "phistory (asset ad) \<noteq> []"
    and "\<not> cooldown_skip cfg now ad"
  shows "sent (snd (tick_asset cfg ap lib now dpath ad vsum w)) =
           sent w @ [\<lparr>order_symbol = symbol (asset ad), action = BUY, amount = 1\<rparr>]"
proof -
  obtain c where c: "phistory_latest (asset ad) = Some c"
    using assms(2) phistory_latest_Some by blast
  show ?thesis
    using c assms(1,3)
    by (simp add: tick_asset_def Let_def sent_decide_zero)
qed

text \<open>A bootstrap buy: quantity 0, one price point, no transaction yet.\<close>

theorem bootstrap_buy_witness:
  "sent (snd (tick_asset demo_cfg fill_api demo_lib 100 ''work''
           (demo_ad 0 [observation 100 0] []) 0 demo_world)) =
     [\<lparr>order_symbol = ''AAPL'', action = BUY, amount = 1\<rparr>]"
  using bootstrap_buy [of "demo_ad 0 [observation 100 0] []" demo_cfg 100 fill_api demo_lib
      "''work''" 0 demo_world]
  by (simp add: demo_ad_def cooldown_skip_def thistory_latest_def demo_world_def)

text \<open>
  Claim C2 as stated fails within the cooldown: an asset of quantity 0 whose latest
  transaction is one second old receives no order.
\<close>

theorem bootstrap_buy_counterexample:
  "quantity (asset (demo_ad 0 [observation 100 0] [observation 100 99])) = 0 \<and>
   sent (snd (tick_asset demo_cfg fill_api demo_lib 100 ''work''
           (demo_ad 0 [observation 100 0] [observation 100 99]) 0 demo_world)) = []"
  by (simp add: tick_asset_def demo_ad_def phistory_min_def phistory_max_def phistory_latest_def
      cooldown_skip_def thistory_latest_def timestamp_total_seconds_def observation_def
      demo_cfg_def demo_world_def)

text \<open>
  Claim C3. For an asset with at least one recorded transaction: when now minus the
  timestamp of the latest transaction is less than \<^verbatim>\<open>order_cooldown\<close>, the tick
  submits no order for it and writes no file; in particular a transaction timestamped
  now - T + 1 gives no order, and one timestamped now - T - 1 passes the gate, so that
  with price history the outcome for the asset is that of the decision.
\<close>

theorem cooldown_gate:
  "(thistory ad \<noteq> [] \<and> now - timestamp (last (thistory ad)) < real_of_int (order_cooldown cfg) \<longrightarrow>
      sent (snd (tick_asset cfg ap lib now dpath ad vsum w)) = sent w \<and>
      files (snd (tick_asset cfg ap lib now dpath ad vsum w)) = files w) \<and>
   (thistory ad \<noteq> [] \<and> timestamp (last (thistory ad)) = now - real_of_int (order_cooldown cfg) + 1 \<longrightarrow>
      sent (snd (tick_asset cfg ap lib now dpath ad vsum w)) = sent w) \<and>
   (thistory ad \<noteq> [] \<and> timestamp (last (thistory ad)) = now - real_of_int (order_cooldown cfg) - 1 \<longrightarrow>
      \<not> cooldown_skip cfg now ad \<and>
      (\<forall>c. phistory_latest (asset ad) = Some c \<longrightarrow>
         tick_asset cfg ap lib now dpath ad vsum w =
           (case decide cfg ap lib now dpath ad (phistory_min (asset ad))
                   (phistory_max (asset ad)) c w of
              (Inl e, w2) \<Rightarrow> (Inl e, w2)
            | (Inr u, w2) \<Rightarrow> (Inr (vsum + pdp_value c * quantity (asset ad)), w2))))"
proof (intro conjI impI allI)
  assume a: "thistory ad \<noteq> [] \<and> now - timestamp (last (thistory ad)) < real_of_int (order_cooldown cfg)"
  then have "cooldown_skip cfg now ad" by (simp add: cooldown_skip_last)
  then show "sent (snd (tick_asset cfg ap lib now dpath ad vsum w)) = sent w"
    and "files (snd (tick_asset cfg ap lib now dpath ad vsum w)) = files w"
    by (simp_all add: tick_asset_cooldown)
next
  assume a: "thistory ad \<noteq> [] \<and> timestamp (last (thistory ad)) = now - real_of_int (order_cooldown cfg) + 1"
  then have "cooldown_skip cfg now ad" by (simp add: cooldown_skip_last)
  then show "sent (snd (tick_asset cfg ap lib now dpath ad vsum w)) = sent w"
    by (simp add: tick_asset_cooldown)
next
  assume a: "thistory ad \<noteq> [] \<and> timestamp (last (thistory ad)) = now - real_of_int (order_cooldown cfg) - 1"
  then show n: "\<not> cooldown_skip cfg now ad" by (simp add: cooldown_skip_last)
  fix c assume "phistory_latest (asset ad) = Some c"
  then show "tick_asset cfg ap lib now dpath ad vsum w =
           (case decide cfg ap lib now dpath ad (phistory_min (asset ad))
                   (phistory_max (asset ad)) c w of
              (Inl e, w2) \<Rightarrow> (Inl e, w2)
            | (Inr u, w2) \<Rightarrow> (Inr (vsum + pdp_value c * quantity (asset ad)), w2))"
    using n by (rule tick_asset_eligible [rotated])
qed

text \<open>The two boundary cases of the gate, with a cooldown of 43200 seconds.\<close>

theorem cooldown_gate_witness:
  "sent (snd (tick_asset demo_cfg fill_api demo_lib 50000 ''work''
           (demo_ad 0 [observation 100 0] [observation 100 (50000 - 43200 + 1)]) 0 demo_world)) = [] \<and>
   \<not> cooldown_skip demo_cfg 50000 (demo_ad 0 [observation 100 0] [observation 100 (50000 - 43200 - 1)]) \<and>
   sent (snd (tick_asset demo_cfg fill_api demo_lib 50000 ''work''
           (demo_ad 0 [observation 100 0] [observation 100 (50000 - 43200 - 1)]) 0 demo_world)) =
     [\<lparr>order_symbol = ''AAPL'', action = BUY, amount = 1\<rparr>]"
proof -
  let ?ad1 = "demo_ad 0 [observation 100 0] [observation 100 (50000 - 43200 + 1)]"
  let ?ad2 = "demo_ad 0 [observation 100 0] [observation 100 (50000 - 43200 - 1)]"
  have 1: "thistory ?ad1 \<noteq> [] \<and> now1 - timestamp (last (thistory ?ad1)) < real_of_int (order_cooldown demo_cfg)"
    if "now1 = 50000" for now1 :: real
    using that by (simp add: demo_ad_def observation_def demo_cfg_def)
  have 2: "thistory ?ad2 \<noteq> [] \<and> timestamp (last (thistory ?ad2)) = 50000 - real_of_int (order_cooldown demo_cfg) - 1"
    by (simp add: demo_ad_def observation_def demo_cfg_def)
  have 3: "phistory_latest (asset ?ad2) = Some (observation 100 0)"
    by (simp add: demo_ad_def phistory_latest_def)
  have a: "sent (snd (tick_asset demo_cfg fill_api demo_lib 50000 ''work'' ?ad1 0 demo_world)) = sent demo_world"
    using cooldown_gate [of ?ad1 50000 demo_cfg fill_api demo_lib "''work''" 0 demo_world] 1 by blast
  have b: "\<not> cooldown_skip demo_cfg 50000 ?ad2 \<and>
      tick_asset demo_cfg fill_api demo_lib 50000 ''work'' ?ad2 0 demo_world =
           (case decide demo_cfg fill_api demo_lib 50000 ''work'' ?ad2 (phistory_min (asset ?ad2))
                   (phistory_max (asset ?ad2)) (observation 100 0) demo_world of
              (Inl e, w2) \<Rightarrow> (Inl e, w2)
            | (Inr u, w2) \<Rightarrow> (Inr (0 + pdp_value (observation 100 0) * quantity (asset ?ad2)), w2))"
    using cooldown_gate [of ?ad2 50000 demo_cfg fill_api demo_lib "''work''" 0 demo_world] 2 3 by blast
  have c: "sent (snd (decide demo_cfg fill_api demo_lib 50000 ''work'' ?ad2 (phistory_min (asset ?ad2))
                   (phistory_max (asset ?ad2)) (observation 100 0) demo_world)) =
            [\<lparr>order_symbol = ''AAPL'', action = BUY, amount = 1\<rparr>]"
    by (simp add: sent_decide_zero demo_ad_def demo_world_def)
  show ?thesis using a b c by (simp add: demo_world_def)
qed







text \<open>
  Claim C9. When \<^verbatim>\<open>send_order\<close> fails, \<^verbatim>\<open>place_order\<close> returns
  \<^verbatim>\<open>None\<close>, leaves the asset data as it was (no transaction appended) and writes
  no file.
\<close>

theorem place_order_failure:
  assumes "\<not> success (send_order ap order)"
  shows "fst (place_order ap lib now dpath ad order w) = Inr (ad, None) \<and>
         files (snd (place_order ap lib now dpath ad order w)) = files w"
  using assms by (simp add: place_order_def Let_def)

text \<open>A rejected order on the empty world.\<close>

theorem place_order_failure_witness:
  "fst (place_order demo_api demo_lib 100 ''work'' (demo_ad 0 [observation 100 0] [])
          \<lparr>order_symbol = ''AAPL'', action = BUY, amount = 1\<rparr> demo_world) =
     Inr (demo_ad 0 [observation 100 0] [], None) \<and>
   files (snd (place_order demo_api demo_lib 100 ''work'' (demo_ad 0 [observation 100 0] [])
          \<lparr>order_symbol = ''AAPL'', action = BUY, amount = 1\<rparr> demo_world)) = files demo_world"
proof -
  have f: "\<not> success (send_order demo_api \<lparr>order_symbol = ''AAPL'', action = BUY, amount = 1\<rparr>)"
    by (simp add: demo_api_def IR_fail_def)
  show ?thesis by (rule place_order_failure [OF f])
qed

subsection \<open>An asset without price history\<close>

text \<open>
  Claim C1 does not hold of the code. For an asset without price history the tick logs the
  condition and then raises AttributeError at line 199, before the cooldown gate and the
  bootstrap buy: here on a fresh asset data for a symbol that the account does not hold,
  and on the whole tick of a first run (no file on disk, an empty account).
\<close>

theorem tick_no_history_raises:
  "phistory (asset (AssetData_init (Asset_init ''AAPL'' ''AAPL'' 0))) = [] \<and>
   tick_asset demo_cfg fill_api demo_lib 100 ''work''
       (AssetData_init (Asset_init ''AAPL'' ''AAPL'' 0)) 0 demo_world =
     (Inl AttributeError, log_add demo_world (LogNoHistory ''AAPL'')) \<and>
   fst (tick demo_cfg fill_api demo_lib 100 ''work'' demo_world) = Inl AttributeError"
proof -
  have a: "tick_asset demo_cfg fill_api demo_lib 100 ''work''
       (AssetData_init (Asset_init ''AAPL'' ''AAPL'' 0)) 0 demo_world =
     (Inl AttributeError, log_add demo_world (LogNoHistory ''AAPL''))"
    by (simp add: tick_asset_def AssetData_init_def Asset_init_def phistory_min_def
        phistory_max_def phistory_latest_def)
  have b: "fst (tick demo_cfg fill_api demo_lib 100 ''work'' demo_world) = Inl AttributeError"
    by code_simp
  show ?thesis using a b by (simp add: AssetData_init_def Asset_init_def)
qed

subsection \<open>Loading asset data\<close>

lemma thistory_parse_bad_entry:
  "\<exists>e\<in>set es. e \<noteq> JNull \<and> pdp_json_parse lib e = None \<Longrightarrow> thistory_parse lib es ad = None"
proof (induction es arbitrary: ad)
  case Nil
  then show ?case by simp
next
  case (Cons e es)
  show ?case
  proof (cases "e \<noteq> JNull \<and> pdp_json_parse lib e = None")
    case True
    then show ?thesis by (cases e) simp_all
  next
    case False
    then have rest: "\<exists>e\<in>set es. e \<noteq> JNull \<and> pdp_json_parse lib e = None"
      using Cons.prems by auto
    show ?thesis
      using False Cons.IH [OF rest] by (cases e) (auto split: option.splits)
  qed
qed

lemma json_parse_bad_keys:
  assumes "map_of kvs ''mode'' = None \<or> (\<exists>v. map_of kvs ''mode'' = Some v \<and> py_type v \<noteq> TInt) \<or>
           map_of kvs ''thistory'' = None \<or> (\<exists>v. map_of kvs ''thistory'' = Some v \<and> py_type v \<noteq> TList)"
  shows "json_parse lib (JObj kvs) = Inr None"
proof -
  have "\<not> json_check_keys kvs [(''mode'', TInt), (''thistory'', TList)]"
    using assms by (auto split: option.splits)
  then show ?thesis by (simp add: json_parse_def split: option.splits)
qed

lemma json_parse_bad_entry:
  assumes "map_of kvs ''mode'' = Some (JInt m)" and "m \<in> {- 1, 0, 1}"
    and "map_of kvs ''thistory'' = Some (JList es)"
    and "\<exists>e\<in>set es. e \<noteq> JNull \<and> pdp_json_parse lib e = None"
  shows "json_parse lib (JObj kvs) = Inr None"
proof -
  obtain md where md: "AssetMode_of m = Inr md"
    using assms(2) by (auto simp: AssetMode_of_def)
  show ?thesis
    using assms(1,3) md thistory_parse_bad_entry [OF assms(4)]
    by (simp add: json_parse_def split: option.splits)
qed

lemma load_read:
  assumes "rd_err w (path_join dpath (symbol_to_asset_fname smb)) = None"
    and "files w (path_join dpath (symbol_to_asset_fname smb)) = Some s"
  shows "load lib smb dpath w =
     (case json_try_loads lib s of
        None \<Rightarrow> Inr (IR_fail (''failed to parse JSON data from file: '' @ path_join dpath (symbol_to_asset_fname smb)))
      | Some jdata \<Rightarrow>
          (case json_parse lib jdata of
             Inl e \<Rightarrow> Inl e
           | Inr None \<Rightarrow> Inr (IR_fail (''failed to parse AssetData from file: '' @ path_join dpath (symbol_to_asset_fname smb)))
           | Inr (Some ad) \<Rightarrow> Inr (IR_ok (Some ad))))"
  using assms by (simp add: load_def Let_def file_read_all_def IR_ok_def)

lemma load_missing:
  "load demo_lib ''AAPL'' ''work'' demo_world =
     Inr (IR_fail (''failed to read from file (work/asset_aapl.json): ''
            @ ''[Errno 2] No such file or directory: '' @ [CHR 0x27] @ ''work/asset_aapl.json'' @ [CHR 0x27]))"
  by (simp add: load_def Let_def file_read_all_def path_aapl demo_world_def IR_fail_def)

lemma file_world_read:
  "rd_err (file_world content) (path_join ''work'' (symbol_to_asset_fname ''AAPL'')) = None \<and>
   files (file_world content) (path_join ''work'' (symbol_to_asset_fname ''AAPL'')) = Some content"
  by (simp add: file_world_def demo_world_def path_aapl)

text \<open>
  A mode outside the enumeration is not a parse failure of \<^verbatim>\<open>json_parse\<close>: the
  constructor of the enum raises, and so does the load.
\<close>

lemma load_mode_out_of_range:
  "load (doc_lib (JObj [(''symbol'', JStr ''AAPL''), (''name'', JStr ''AAPL''),
                        (''quantity'', JFloat 0), (''phistory'', JList []),
                        (''mode'', JInt 2), (''thistory'', JList [])]))
      ''AAPL'' ''work'' (file_world ''doc'') = Inl ValueError"
  using file_world_read [of "''doc''"]
  by (simp add: load_def Let_def file_read_all_def IR_ok_def json_try_loads_def doc_lib_def
      json_parse_def asset_json_parse_def AssetMode_of_def)

text \<open>
  Claim C8, as amended. \<^verbatim>\<open>AssetData.load\<close> returns a successful result holding the
  parsed asset data when the document parses. When the file does not exist it returns the
  failed result of the read: a failure like the others, told apart by its message only.
  It returns a failure with the message of a JSON parse failure when the document is
  malformed JSON, and with the message of an AssetData parse failure when the key mode is
  missing or not an integer, when the key thistory is missing or not a sequence, or when
  the mode is one of -1, 0, 1 and an entry of thistory other than null does not parse.
\<close>

theorem load_results:
  "(rd_err w (path_join dpath (symbol_to_asset_fname smb)) = None \<and>
    files w (path_join dpath (symbol_to_asset_fname smb)) = None \<longrightarrow>
      load lib smb dpath w =
        Inr (IR_fail (''failed to read from file ('' @ path_join dpath (symbol_to_asset_fname smb)
               @ ''): [Errno 2] No such file or directory: '' @ [CHR 0x27]
               @ path_join dpath (symbol_to_asset_fname smb) @ [CHR 0x27]))) \<and>
   (rd_err w (path_join dpath (symbol_to_asset_fname smb)) = None \<and>
    files w (path_join dpath (symbol_to_asset_fname smb)) = Some s \<longrightarrow>
      (json_loads lib s = None \<longrightarrow>
         load lib smb dpath w =
           Inr (IR_fail (''failed to parse JSON data from file: ''
                  @ path_join dpath (symbol_to_asset_fname smb)))) \<and>
      (json_loads lib s = Some (JObj kvs) \<and>
       (map_of kvs ''mode'' = None \<or> (\<exists>v. map_of kvs ''mode'' = Some v \<and> py_type v \<noteq> TInt) \<or>
        map_of kvs ''thistory'' = None \<or>
        (\<exists>v. map_of kvs ''thistory'' = Some v \<and> py_type v \<noteq> TList)) \<longrightarrow>
         load lib smb dpath w =
           Inr (IR_fail (''failed to parse AssetData from file: ''
                  @ path_join dpath (symbol_to_asset_fname smb)))) \<and>
      (json_loads lib s = Some (JObj kvs) \<and> map_of kvs ''mode'' = Some (JInt m) \<and>
       m \<in> {- 1, 0, 1} \<and> map_of kvs ''thistory'' = Some (JList es) \<and>
       (\<exists>e\<in>set es. e \<noteq> JNull \<and> pdp_json_parse lib e = None) \<longrightarrow>
         load lib smb dpath w =
           Inr (IR_fail (''failed to parse AssetData from file: ''
                  @ path_join dpath (symbol_to_asset_fname smb)))) \<and>
      (json_loads lib s = Some (JObj kvs) \<and> json_parse lib (JObj kvs) = Inr (Some ad) \<longrightarrow>
         load lib smb dpath w = Inr (IR_ok (Some ad))))"
proof (intro conjI impI)
  assume "rd_err w (path_join dpath (symbol_to_asset_fname smb)) = None \<and>
    files w (path_join dpath (symbol_to_asset_fname smb)) = None"
  then show "load lib smb dpath w =
        Inr (IR_fail (''failed to read from file ('' @ path_join dpath (symbol_to_asset_fname smb)
               @ ''): [Errno 2] No such file or directory: '' @ [CHR 0x27]
               @ path_join dpath (symbol_to_asset_fname smb) @ [CHR 0x27]))"
    by (simp add: load_def Let_def file_read_all_def IR_fail_def)
next
  assume r: "rd_err w (path_join dpath (symbol_to_asset_fname smb)) = None \<and>
    files w (path_join dpath (symbol_to_asset_fname smb)) = Some s"
  note l = load_read [OF conjunct1 [OF r] conjunct2 [OF r]]
  {
    assume "json_loads lib s = None"
    then show "load lib smb dpath w =
           Inr (IR_fail (''failed to parse JSON data from file: ''
                  @ path_join dpath (symbol_to_asset_fname smb)))"
      by (simp add: l json_try_loads_def)
  next
    assume a: "json_loads lib s = Some (JObj kvs) \<and>
       (map_of kvs ''mode'' = None \<or> (\<exists>v. map_of kvs ''mode'' = Some v \<and> py_type v \<noteq> TInt) \<or>
        map_of kvs ''thistory'' = None \<or>
        (\<exists>v. map_of kvs ''thistory'' = Some v \<and> py_type v \<noteq> TList))"
    then have "json_parse lib (JObj kvs) = Inr None"
      using json_parse_bad_keys by blast
    then show "load lib smb dpath w =
           Inr (IR_fail (''failed to parse AssetData from file: ''
                  @ path_join dpath (symbol_to_asset_fname smb)))"
      using a by (simp add: l json_try_loads_def)
  next
    assume a: "json_loads lib s = Some (JObj kvs) \<and> map_of kvs ''mode'' = Some (JInt m) \<and>
       m \<in> {- 1, 0, 1} \<and> map_of kvs ''thistory'' = Some (JList es) \<and>
       (\<exists>e\<in>set es. e \<noteq> JNull \<and> pdp_json_parse lib e = None)"
    then have "json_parse lib (JObj kvs) = Inr None"
      using json_parse_bad_entry by blast
    then show "load lib smb dpath w =
           Inr (IR_fail (''failed to parse AssetData from file: ''
                  @ path_join dpath (symbol_to_asset_fname smb)))"
      using a by (simp add: l json_try_loads_def)
  next
    assume "json_loads lib s = Some (JObj kvs) \<and> json_parse lib (JObj kvs) = Inr (Some ad)"
    then show "load lib smb dpath w = Inr (IR_ok (Some ad))"
      by (simp add: l json_try_loads_def)
  }
qed

text \<open>The five cases, on the empty world and on worlds holding one file.\<close>

theorem load_results_witness:
  "load demo_lib ''AAPL'' ''work'' demo_world =
     Inr (IR_fail (''failed to read from file (work/asset_aapl.json): ''
            @ ''[Errno 2] No such file or directory: '' @ [CHR 0x27] @ ''work/asset_aapl.json'' @ [CHR 0x27])) \<and>
   load demo_lib ''AAPL'' ''work'' (file_world ''not json'') =
     Inr (IR_fail ''failed to parse JSON data from file: work/asset_aapl.json'') \<and>
   load demo_lib ''AAPL'' ''work'' (file_world ''{}'') =
     Inr (IR_fail ''failed to parse AssetData from file: work/asset_aapl.json'') \<and>
   load (doc_lib (JObj [(''mode'', JInt 0), (''thistory'', JList [JInt 5])])) ''AAPL'' ''work''
       (file_world ''doc'') =
     Inr (IR_fail ''failed to parse AssetData from file: work/asset_aapl.json'') \<and>
   load (doc_lib (JObj (json_make demo_lib (demo_ad 0 [] [])))) ''AAPL'' ''work'' (file_world ''doc'') =
     Inr (IR_ok (Some (demo_ad 0 [] [])))"
proof -
  have 1: "load demo_lib ''AAPL'' ''work'' demo_world =
     Inr (IR_fail (''failed to read from file (work/asset_aapl.json): ''
            @ ''[Errno 2] No such file or directory: '' @ [CHR 0x27] @ ''work/asset_aapl.json'' @ [CHR 0x27]))"
    using load_results [where w = demo_world and dpath = "''work''" and smb = "''AAPL''"
        and lib = demo_lib]
    by (simp add: path_aapl demo_world_def)
  have 2: "load demo_lib ''AAPL'' ''work'' (file_world ''not json'') =
     Inr (IR_fail ''failed to parse JSON data from file: work/asset_aapl.json'')"
    using load_results [where w = "file_world ''not json''" and dpath = "''work''"
        and smb = "''AAPL''" and lib = demo_lib and s = "''not json''"] file_world_read
    by (simp add: path_aapl demo_lib_def)
  have 3: "load demo_lib ''AAPL'' ''work'' (file_world ''{}'') =
     Inr (IR_fail ''failed to parse AssetData from file: work/asset_aapl.json'')"
    using load_results [where w = "file_world ''{}''" and dpath = "''work''"
        and smb = "''AAPL''" and lib = demo_lib and s = "''{}''" and kvs = "[]"] file_world_read
    by (simp add: path_aapl demo_lib_def)
  let ?bad = "[(''mode'', JInt 0), (''thistory'', JList [JInt 5])]"
  have 4: "load (doc_lib (JObj ?bad)) ''AAPL'' ''work'' (file_world ''doc'') =
     Inr (IR_fail ''failed to parse AssetData from file: work/asset_aapl.json'')"
    using load_results [where w = "file_world ''doc''" and dpath = "''work''"
        and smb = "''AAPL''" and lib = "doc_lib (JObj ?bad)" and s = "''doc''" and kvs = ?bad
        and m = 0 and es = "[JInt 5]"] file_world_read
    by (simp add: path_aapl doc_lib_def pdp_json_parse_def)
  let ?good = "json_make demo_lib (demo_ad 0 [] [])"
  have p: "json_parse (doc_lib (JObj ?good)) (JObj ?good) = Inr (Some (demo_ad 0 [] []))"
    by (simp add: json_parse_def json_make_def asset_json_make_def asset_json_parse_def
        demo_ad_def AssetMode_of_def AssetData_init_def)
  have 5: "load (doc_lib (JObj ?good)) ''AAPL'' ''work'' (file_world ''doc'') =
     Inr (IR_ok (Some (demo_ad 0 [] [])))"
    using load_results [where w = "file_world ''doc''" and dpath = "''work''"
        and smb = "''AAPL''" and lib = "doc_lib (JObj ?good)" and s = "''doc''" and kvs = ?good
        and ad = "demo_ad 0 [] []"] file_world_read p
    by (simp add: path_aapl doc_lib_def)
  from 1 2 3 4 5 show ?thesis by (intro conjI)
qed

text \<open>
  Claim C8 as stated fails for a missing file: the result is a failure, with
  \<^verbatim>\<open>success = False\<close> and no data, as for a parse error.
\<close>

theorem load_results_counterexample:
  "files demo_world (path_join ''work'' (symbol_to_asset_fname ''AAPL'')) = None \<and>
   load demo_lib ''AAPL'' ''work'' demo_world =
     Inr \<lparr>success = False,
          message = ''failed to read from file (work/asset_aapl.json): ''
            @ ''[Errno 2] No such file or directory: '' @ [CHR 0x27] @ ''work/asset_aapl.json'' @ [CHR 0x27],
          data = None\<rparr>"
  by (simp add: load_def Let_def file_read_all_def path_aapl demo_world_def IR_fail_def)

subsection \<open>Retrieving the assets\<close>

lemma search_symbol: "search assets smb = Some a \<Longrightarrow> symbol a = smb"
  by (auto simp: search_def find_Some_iff)

text \<open>
  Claim C10, as amended. For a tracked symbol whose load returns a failure (the file is
  missing or unreadable, the document is not JSON, or the AssetData parser returns
  \<^verbatim>\<open>None\<close>), \<^verbatim>\<open>retrieve_assets\<close> builds a fresh asset data: mode UNKNOWN,
  no transaction, and the asset of the live account snapshot, or a new asset of quantity
  0 when the account does not hold the symbol. It saves it; when the write succeeds the
  file of the symbol holds the fresh document, whose thistory is empty, whatever it held
  before.
\<close>

theorem retrieve_one_fresh:
  assumes "load lib smb dpath w = Inr res" and "\<not> success res"
    and "wr_err w (path_join dpath (symbol_to_asset_fname smb)) = None"
  shows "let fresh = AssetData_init (case search assets smb of
                                       None \<Rightarrow> Asset_init smb smb 0 | Some a \<Rightarrow> a)
         in retrieve_one lib dpath assets smb w =
              (Inr fresh,
               w\<lparr>files := (files w)(path_join dpath (symbol_to_asset_fname smb) \<mapsto>
                              json_dumps lib (JObj (json_make lib fresh)))\<rparr>) \<and>
            mode fresh = UNKNOWN \<and> thistory fresh = [] \<and>
            map_of (json_make lib fresh) ''thistory'' = Some (JList []) \<and>
            quantity (asset fresh) = (case search assets smb of None \<Rightarrow> 0 | Some a \<Rightarrow> quantity a)"
proof (cases "search assets smb")
  case None
  then show ?thesis
    using assms
    by (simp add: retrieve_one_def Let_def save_def file_write_all_def AssetData_init_def
        Asset_init_def json_make_def asset_json_make_def)
next
  case (Some a)
  then have "symbol a = smb" by (rule search_symbol)
  then show ?thesis
    using assms Some
    by (simp add: retrieve_one_def Let_def save_def file_write_all_def AssetData_init_def
        json_make_def asset_json_make_def)
qed

text \<open>A first run without a file, for a symbol that the account holds or not.\<close>

theorem retrieve_one_fresh_witness:
  "retrieve_one demo_lib ''work'' [] ''AAPL'' demo_world =
     (Inr (AssetData_init (Asset_init ''AAPL'' ''AAPL'' 0)),
      demo_world\<lparr>files := (files demo_world)(''work/asset_aapl.json'' \<mapsto>
                     ''{symbol,name,quantity,phistory,mode,thistory}'')\<rparr>) \<and>
   fst (retrieve_one demo_lib ''work''
          [\<lparr>name = ''Apple'', symbol = ''AAPL'', quantity = 3, phistory = [observation 100 0]\<rparr>]
          ''AAPL'' demo_world) =
     Inr \<lparr>asset = \<lparr>name = ''Apple'', symbol = ''AAPL'', quantity = 3,
                   phistory = [observation 100 0]\<rparr>, mode = UNKNOWN, thistory = []\<rparr>"
proof -
  have f: "\<not> success (IR_fail (''failed to read from file (work/asset_aapl.json): ''
            @ ''[Errno 2] No such file or directory: '' @ [CHR 0x27] @ ''work/asset_aapl.json'' @ [CHR 0x27]) :: AssetData IR)"
    by (simp add: IR_fail_def)
  have wr: "wr_err demo_world (path_join ''work'' (symbol_to_asset_fname ''AAPL'')) = None"
    by (simp add: demo_world_def)
  have d: "json_dumps demo_lib (JObj (json_make demo_lib (AssetData_init (Asset_init ''AAPL'' ''AAPL'' 0)))) =
      ''{symbol,name,quantity,phistory,mode,thistory}''"
    by (simp add: demo_lib_def json_make_def asset_json_make_def)
  have 1: "retrieve_one demo_lib ''work'' [] ''AAPL'' demo_world =
     (Inr (AssetData_init (Asset_init ''AAPL'' ''AAPL'' 0)),
      demo_world\<lparr>files := (files demo_world)(''work/asset_aapl.json'' \<mapsto>
                     ''{symbol,name,quantity,phistory,mode,thistory}'')\<rparr>)"
    using retrieve_one_fresh [OF load_missing f wr, of "[]"] d
    by (simp add: Let_def search_def path_aapl)
  have 2: "fst (retrieve_one demo_lib ''work''
          [\<lparr>name = ''Apple'', symbol = ''AAPL'', quantity = 3, phistory = [observation 100 0]\<rparr>]
          ''AAPL'' demo_world) =
     Inr \<lparr>asset = \<lparr>name = ''Apple'', symbol = ''AAPL'', quantity = 3,
                   phistory = [observation 100 0]\<rparr>, mode = UNKNOWN, thistory = []\<rparr>"
    using retrieve_one_fresh [OF load_missing f wr, of
       "[\<lparr>name = ''Apple'', symbol = ''AAPL'', quantity = 3, phistory = [observation 100 0]\<rparr>]"]
    by (simp add: Let_def search_def AssetData_init_def)
  from 1 2 show ?thesis by (intro conjI)
qed

text \<open>
  Claim C10 as stated fails when the file can neither be read nor written: the load fails,
  the result of the save is ignored, and the file keeps its old content.
\<close>

theorem retrieve_one_fresh_counterexample:
  "\<not> success (file_read_all (blocked_world ''old'') ''work/asset_aapl.json'') \<and>
   files (snd (retrieve_one demo_lib ''work'' [] ''AAPL'' (blocked_world ''old'')))
     ''work/asset_aapl.json'' = Some ''old''"
  by (simp add: retrieve_one_def load_def Let_def file_read_all_def save_def file_write_all_def
      path_aapl blocked_world_def file_world_def demo_world_def IR_fail_def)

end
